theory Spec2Isabelle
  imports Main
begin

section \<open>Data model (models.py)\<close>

text \<open>
  Timestamps (\<open>datetime\<close>) are integers: microseconds since the epoch, without the
  range limits of Python's \<open>datetime\<close>. The clock value that \<open>datetime.utcnow()\<close>
  returns is an argument \<open>now\<close> of every function that reads the clock.
\<close>

type_synonym datetime = int

text \<open>
  A Python value as \<open>json.loads\<close> returns it. \<open>JNull\<close> is Python's \<open>None\<close>, which
  is also what a nullable JSON column holds when it was never written. Numbers are
  integers here.
\<close>

datatype json =
    JNull
  | JBool bool
  | JNum int
  | JStr string
  | JArr "json list"
  | JObj "(string \<times> json) list"

text \<open>Table \<open>users\<close>.\<close>

record User =
  id_u :: int
  email :: string
  created_at_u :: datetime

text \<open>
  Table \<open>analysis_results\<close>. \<open>status\<close> is a \<open>String(50)\<close> column, not an enumeration:
  the four statuses are a convention of the callers.
\<close>

record AnalysisResult =
  id' :: string
  user_id :: "int option"
  filename :: string
  status :: string
  result_json :: json
  error_message :: "string option"
  created_at :: datetime
  completed_at :: "datetime option"

text \<open>
  What the program does to the outside, in the order it does it: lines logged at error
  level, commits of a row of \<open>analysis_results\<close> (the primary key and the status
  committed), runs of the crew, and the calls of Celery's \<open>update_state\<close>.
  Lines logged at info and warning level are not modelled.
\<close>

datatype event =
    Log_error string
  | Db_commit string string
  | Crew_kickoff string
  | Update_state string string string
  | Session_close

text \<open>A task message on the Celery queue: the arguments of \<open>apply_async\<close>.\<close>

record queued =
  q_task_id :: string
  q_file_path :: string
  q_query :: string
  q_user_id :: "int option"
  q_expires :: nat

text \<open>
  The state outside the program: the files under \<open>data/\<close> (path and content), the two
  tables, the Celery queue and the trace of events.
\<close>

record world =
  files :: "(string \<times> string) list"
  users :: "User list"
  analysis_results :: "AnalysisResult list"
  queue :: "queued list"
  events :: "event list"

definition emit :: "event \<Rightarrow> world \<Rightarrow> world" where
  "emit e w = w\<lparr>events := events w @ [e]\<rparr>"

text \<open>Python's truth value of an \<open>Optional[str]\<close>: \<open>None\<close> and the empty string are false.\<close>

fun truthy :: "string option \<Rightarrow> bool" where
  "truthy None = False"
| "truthy (Some s) = (s \<noteq> [])"

section \<open>CRUD operations (crud.py)\<close>

text \<open>\<open>session.query(AnalysisResult).filter(AnalysisResult.id == task_id).first()\<close>\<close>

definition get_analysis :: "string \<Rightarrow> world \<Rightarrow> AnalysisResult option" where
  "get_analysis task_id w = find (\<lambda>a. id' a = task_id) (analysis_results w)"

text \<open>
  \<open>session.commit()\<close> after attributes of the loaded object were assigned: the rows with
  the object's primary key take the object's state.
\<close>

definition commit :: "AnalysisResult \<Rightarrow> world \<Rightarrow> world" where
  "commit a w =
     emit (Db_commit (id' a) (status a))
       (w\<lparr>analysis_results := map (\<lambda>r. if id' r = id' a then a else r) (analysis_results w)\<rparr>)"

definition create_analysis ::
  "datetime \<Rightarrow> string \<Rightarrow> string \<Rightarrow> int option \<Rightarrow> world \<Rightarrow> AnalysisResult \<times> world" where
  "create_analysis now task_id fname uid w =
     (let analysis = \<lparr>id' = task_id, user_id = uid, filename = fname, status = ''pending'',
                       result_json = JNull, error_message = None, created_at = now,
                       completed_at = None\<rparr>
      in (analysis,
          emit (Db_commit task_id ''pending'')
            (w\<lparr>analysis_results := analysis_results w @ [analysis]\<rparr>)))"

definition update_analysis_status ::
  "datetime \<Rightarrow> string \<Rightarrow> string \<Rightarrow> string option \<Rightarrow> world \<Rightarrow> AnalysisResult option \<times> world" where
  "update_analysis_status now task_id st error_msg w =
     (case get_analysis task_id w of
        Some analysis \<Rightarrow>
          (let a1 = analysis\<lparr>status := st\<rparr>;
               a2 = (if truthy error_msg then a1\<lparr>error_message := error_msg\<rparr> else a1);
               a3 = (if st = ''completed'' then a2\<lparr>completed_at := Some now\<rparr> else a2)
           in (Some a3, commit a3 w))
      | None \<Rightarrow>
          (None,
           emit (Log_error (''[CRUD] Could not update status - analysis not found: '' @ task_id)) w))"

definition update_analysis_result ::
  "datetime \<Rightarrow> string \<Rightarrow> string \<Rightarrow> json \<Rightarrow> world \<Rightarrow> AnalysisResult option \<times> world" where
  "update_analysis_result now task_id st result w =
     (case get_analysis task_id w of
        Some analysis \<Rightarrow>
          (let a = analysis\<lparr>status := st, result_json := result, completed_at := Some now\<rparr>
           in (Some a, commit a w))
      | None \<Rightarrow>
          (None,
           emit (Log_error (''[CRUD] Could not update result - analysis not found: '' @ task_id)) w))"








text \<open>
  \<open>get_or_create_user\<close>: the first user with this email, or a new row. The new primary
  key is the one SQLite assigns to an \<open>INTEGER PRIMARY KEY\<close>: the largest key plus one.
\<close>

definition next_user_id :: "User list \<Rightarrow> int" where
  "next_user_id us = fold max (map id_u us) 0 + 1"

definition get_or_create_user :: "datetime \<Rightarrow> string \<Rightarrow> world \<Rightarrow> User \<times> world" where
  "get_or_create_user now em w =
     (case find (\<lambda>u. email u = em) (users w) of
        Some user \<Rightarrow> (user, w)
      | None \<Rightarrow>
          (let user = \<lparr>id_u = next_user_id (users w), email = em, created_at_u = now\<rparr>
           in (user, w\<lparr>users := users w @ [user]\<rparr>)))"

section \<open>Response schemas (schemas.py) and the query endpoints (main.py)\<close>

text \<open>
  An exception is its message, except pydantic's \<open>ValidationError\<close> (the schema and the
  field that failed), whose text is not modelled. The detail of an \<open>HTTPException\<close> is a
  text, or a text followed by \<open>str(e)\<close> of such an exception.
\<close>

datatype exc = ValidationError string string

datatype detail = Detail string | Detail_exc string exc

datatype HTTPException = HTTPException nat detail

datatype AnalysisStatusResponse = AnalysisStatusResponse string string "int option"

datatype AnalysisResultResponse =
  AnalysisResultResponse string "int option" string string json "string option" datetime
    "datetime option"

datatype AnalysisRequestResponse = AnalysisRequestResponse string string string string

text \<open>
  The constructors validate. \<open>AnalysisStatusResponse.status\<close> has the pattern
  \<open>^(pending|running|completed|failed)$\<close> and \<open>progress\<close> the bounds \<open>ge=0, le=100\<close>;
  \<open>AnalysisResultResponse.result\<close> is an \<open>Optional[dict]\<close>. The other fields take what
  the columns hold.
\<close>

definition new_AnalysisStatusResponse ::
  "string \<Rightarrow> string \<Rightarrow> int option \<Rightarrow> exc + AnalysisStatusResponse" where
  "new_AnalysisStatusResponse task_id st progress =
     (if st \<notin> {''pending'', ''running'', ''completed'', ''failed''}
      then Inl (ValidationError ''AnalysisStatusResponse'' ''status'')
      else if (case progress of None \<Rightarrow> False | Some p \<Rightarrow> p < 0 \<or> 100 < p)
      then Inl (ValidationError ''AnalysisStatusResponse'' ''progress'')
      else Inr (AnalysisStatusResponse task_id st progress))"

fun is_dict :: "json \<Rightarrow> bool" where
  "is_dict (JObj kvs) = True"
| "is_dict j = False"

definition new_AnalysisResultResponse :: "AnalysisResult \<Rightarrow> exc + AnalysisResultResponse" where
  "new_AnalysisResultResponse a =
     (if result_json a = JNull \<or> is_dict (result_json a)
      then Inr (AnalysisResultResponse (id' a) (user_id a) (filename a) (status a)
                  (result_json a) (error_message a) (created_at a) (completed_at a))
      else Inl (ValidationError ''AnalysisResultResponse'' ''result''))"

text \<open>\<open>{"pending": 0, "running": 50, "completed": 100, "failed": 0}.get(status, 0)\<close>\<close>

definition progress_of :: "string \<Rightarrow> int" where
  "progress_of st =
     (case map_of [(''pending'', 0), (''running'', 50), (''completed'', 100), (''failed'', 0)] st of
        Some p \<Rightarrow> p
      | None \<Rightarrow> 0)"

text \<open>An \<open>Optional[str]\<close> inside an f-string.\<close>

fun str_opt :: "string option \<Rightarrow> string" where
  "str_opt None = ''None''"
| "str_opt (Some s) = s"

text \<open>
  \<open>GET /status/{task_id}\<close>. The endpoints only read the tables (and log below error
  level), so they return no new state.
\<close>

definition check_status :: "string \<Rightarrow> world \<Rightarrow> HTTPException + AnalysisStatusResponse" where
  "check_status task_id w =
     (case get_analysis task_id w of
        None \<Rightarrow> Inl (HTTPException 404 (Detail (''Task '' @ task_id @ '' not found'')))
      | Some analysis \<Rightarrow>
          (case new_AnalysisStatusResponse task_id (status analysis)
                  (Some (progress_of (status analysis))) of
             Inl e \<Rightarrow> Inl (HTTPException 500 (Detail_exc ''Error checking status: '' e))
           | Inr response \<Rightarrow> Inr response))"

text \<open>\<open>GET /analysis/{task_id}\<close>\<close>

definition get_analysis_result :: "string \<Rightarrow> world \<Rightarrow> HTTPException + AnalysisResultResponse" where
  "get_analysis_result task_id w =
     (case get_analysis task_id w of
        None \<Rightarrow> Inl (HTTPException 404 (Detail (''Analysis '' @ task_id @ '' not found'')))
      | Some analysis \<Rightarrow>
          if status analysis = ''pending'' \<or> status analysis = ''running''
          then Inl (HTTPException 202
                 (Detail (''Analysis still processing. Current status: '' @ status analysis
                          @ ''. Check /status/'' @ task_id)))
          else if status analysis = ''failed''
          then Inl (HTTPException 400
                 (Detail (''Analysis failed: '' @ str_opt (error_message analysis))))
          else (case new_AnalysisResultResponse analysis of
                  Inl e \<Rightarrow> Inl (HTTPException 500 (Detail_exc ''Error retrieving analysis: '' e))
                | Inr response \<Rightarrow> Inr response))"

section \<open>The analysis step (main.py) and the background task (celery_app.py)\<close>

text \<open>
  What \<open>financial_crew.kickoff(inputs={"query": query})\<close> does is not code of this
  program: it returns a text or raises, as an argument \<open>kickoff\<close> says for each query.
  \<open>json.loads\<close> (\<open>None\<close> is its \<open>JSONDecodeError\<close>) and \<open>json.dumps\<close> are library
  functions and are arguments too. The exceptions that the database layer can raise are
  inputs: for each database call of the task, whether it raises and with which message.
  A call that raises leaves the tables as they were.
\<close>

datatype outcome = Returns string | Raises string

record env =
  kickoff :: "string \<Rightarrow> outcome"
  json_loads :: "string \<Rightarrow> json option"
  json_dumps :: "json \<Rightarrow> string"
  session_error :: "string option"
  running_error :: "string option"
  result_error :: "string option"
  failed_error :: "string option"
  close_error :: "string option"

text \<open>The body of the \<open>try\<close> in \<open>run_crew_analysis\<close>: \<open>Inl\<close> is an exception.\<close>

definition crew_body :: "env \<Rightarrow> string \<Rightarrow> string \<Rightarrow> world \<Rightarrow> (string + string) \<times> world" where
  "crew_body E query file_path w =
     (case kickoff E query of
        Returns result \<Rightarrow> (Inr result, emit (Crew_kickoff query) w)
      | Raises e \<Rightarrow> (Inl e, emit (Crew_kickoff query) w))"

definition run_crew_analysis ::
  "env \<Rightarrow> string \<Rightarrow> string \<Rightarrow> world \<Rightarrow> (string + string) \<times> world" where
  "run_crew_analysis E query file_path w =
     (case crew_body E query file_path w of
        (Inr result, w1) \<Rightarrow> (Inr result, w1)
      | (Inl e, w1) \<Rightarrow>
          (Inr (json_dumps E (JObj [(''error'', JStr e), (''status'', JStr ''failed'')])),
           emit (Log_error (''[CrewAI] Analysis failed: '' @ e)) w1))"

text \<open>
  The body of the \<open>try\<close> in \<open>analyze_document_task\<close>. It returns whether the session was
  created, and the task's return value (status, task id, result) or the exception.
\<close>

definition task_body ::
  "env \<Rightarrow> datetime \<Rightarrow> string \<Rightarrow> string \<Rightarrow> string \<Rightarrow> world \<Rightarrow>
     bool \<times> (string + string \<times> string \<times> json) \<times> world" where
  "task_body E now task_id file_path query w =
     (case session_error E of
        Some e \<Rightarrow> (False, Inl e, w)
      | None \<Rightarrow>
          (case running_error E of
             Some e \<Rightarrow> (True, Inl e, w)
           | None \<Rightarrow>
               (let w1 = snd (update_analysis_status now task_id ''running'' None w) in
                case run_crew_analysis E query file_path w1 of
                  (Inl e, w2) \<Rightarrow> (True, Inl e, w2)
                | (Inr analysis_result, w2) \<Rightarrow>
                    (let result = (case json_loads E analysis_result of
                                     Some j \<Rightarrow> j
                                   | None \<Rightarrow> JObj [(''raw_analysis'', JStr analysis_result)])
                     in case result_error E of
                          Some e \<Rightarrow> (True, Inl e, w2)
                        | None \<Rightarrow>
                            (True, Inr (''completed'', task_id, result),
                             snd (update_analysis_result now task_id ''completed'' result w2))))))"

text \<open>The \<open>finally\<close> block.\<close>

definition close_session :: "env \<Rightarrow> string \<Rightarrow> bool \<Rightarrow> world \<Rightarrow> world" where
  "close_session E task_id session w =
     (if session
      then (case close_error E of
              None \<Rightarrow> emit Session_close w
            | Some close_err \<Rightarrow>
                emit (Log_error (''[Task '' @ task_id @ ''] Error closing session: '' @ close_err)) w)
      else w)"

text \<open>The \<open>except Exception as exc\<close> block, up to the \<open>raise\<close>.\<close>

definition on_error :: "env \<Rightarrow> datetime \<Rightarrow> string \<Rightarrow> bool \<Rightarrow> string \<Rightarrow> world \<Rightarrow> world" where
  "on_error E now task_id session error_msg w =
     (let w1 = emit (Log_error (''[Task '' @ task_id @ ''] Analysis failed with error: '' @ error_msg)) w;
          w2 = (if session
                then (case failed_error E of
                        None \<Rightarrow> snd (update_analysis_status now task_id ''failed'' (Some error_msg) w1)
                      | Some db_err \<Rightarrow>
                          emit (Log_error (''[Task '' @ task_id
                                  @ ''] Failed to update database with error status: '' @ db_err)) w1)
                else w1)
      in emit (Update_state ''FAILURE'' error_msg task_id) w2)"

definition analyze_document_task ::
  "env \<Rightarrow> datetime \<Rightarrow> string \<Rightarrow> string \<Rightarrow> string \<Rightarrow> int option \<Rightarrow> world \<Rightarrow>
     (string + string \<times> string \<times> json) \<times> world" where
  "analyze_document_task E now task_id file_path query uid w =
     (case task_body E now task_id file_path query w of
        (session, Inr r, w1) \<Rightarrow> (Inr r, close_session E task_id session w1)
      | (session, Inl error_msg, w1) \<Rightarrow>
          (Inl error_msg, close_session E task_id session (on_error E now task_id session error_msg w1)))"

section \<open>Submission (main.py)\<close>

text \<open>\<open>str.lower\<close>, \<open>str.endswith\<close> and \<open>str.strip\<close> on strings of 8-bit characters.\<close>

definition lower_char :: "char \<Rightarrow> char" where
  "lower_char c =
     (case map_of (zip ''ABCDEFGHIJKLMNOPQRSTUVWXYZ'' ''abcdefghijklmnopqrstuvwxyz'') c of
        Some l \<Rightarrow> l
      | None \<Rightarrow> c)"

definition lower :: "string \<Rightarrow> string" where
  "lower s = map lower_char s"

definition endswith :: "string \<Rightarrow> string \<Rightarrow> bool" where
  "endswith s suffix =
     (length suffix \<le> length s \<and> drop (length s - length suffix) s = suffix)"

definition is_space :: "char \<Rightarrow> bool" where
  "is_space c =
     (c \<in> {CHR 0x09, CHR 0x0A, CHR 0x0B, CHR 0x0C, CHR 0x0D, CHR 0x1C, CHR 0x1D, CHR 0x1E,
            CHR 0x1F, CHR 0x20, CHR 0x85, CHR 0xA0})"

definition strip :: "string \<Rightarrow> string" where
  "strip s = rev (dropWhile is_space (rev (dropWhile is_space s)))"

text \<open>
  The exceptions of the file system, of the database and of the broker during a
  submission are inputs, as for the task.
\<close>

record submit_env =
  write_error :: "string option"
  user_error :: "string option"
  create_error :: "string option"
  enqueue_error :: "string option"

text \<open>
  The body of the \<open>try\<close> in \<open>submit_analysis\<close>. \<open>Inl (Inl h)\<close> is an \<open>HTTPException\<close>,
  \<open>Inl (Inr e)\<close> any other exception. \<open>file_id\<close> is the value of \<open>uuid.uuid4()\<close>.
\<close>

definition submit_body ::
  "submit_env \<Rightarrow> datetime \<Rightarrow> string \<Rightarrow> string option \<Rightarrow> string \<Rightarrow> string \<Rightarrow> string option \<Rightarrow>
     world \<Rightarrow> ((HTTPException + string) + AnalysisRequestResponse) \<times> world" where
  "submit_body S now file_id fname content query em w =
     (if \<not> truthy fname \<or> \<not> endswith (lower (str_opt fname)) ''.pdf''
      then (Inl (Inl (HTTPException 400 (Detail ''Only PDF files are supported''))), w)
      else
        (let file_path = ''data/financial_document_'' @ file_id @ ''.pdf'' in
         case write_error S of
           Some e \<Rightarrow> (Inl (Inr e), w)
         | None \<Rightarrow>
             (let w1 = w\<lparr>files := filter (\<lambda>f. fst f \<noteq> file_path) (files w) @ [(file_path, content)]\<rparr>;
                  query1 = (if query = [] \<or> strip query = []
                            then ''Analyze this financial document comprehensively''
                            else strip query);
                  (user, w2) =
                    (if truthy em
                     then (case user_error S of
                             None \<Rightarrow> (case get_or_create_user now (str_opt em) w1 of
                                        (u, w') \<Rightarrow> (Some u, w'))
                           | Some e \<Rightarrow> (None, w1))
                     else (None, w1));
                  uid = map_option id_u user
              in case create_error S of
                   Some e \<Rightarrow> (Inl (Inr e), w2)
                 | None \<Rightarrow>
                     (let w3 = snd (create_analysis now file_id (str_opt fname) uid w2);
                          task_id = file_id
                      in case enqueue_error S of
                           Some e \<Rightarrow> (Inl (Inr e), w3)
                         | None \<Rightarrow>
                             (Inr (AnalysisRequestResponse task_id ''pending''
                                     ''Analysis submitted successfully. Use status endpoint to check progress.''
                                     (''/status/'' @ task_id)),
                              w3\<lparr>queue := queue w3 @
                                   [\<lparr>q_task_id = task_id, q_file_path = file_path, q_query = query1,
                                     q_user_id = uid, q_expires = 3600\<rparr>]\<rparr>)))))"

text \<open>
  \<open>POST /analyze\<close>: an \<open>HTTPException\<close> is raised again as it is; any other exception is
  logged, the uploaded file is removed when it exists, and the answer is a 500.
\<close>

definition submit_analysis ::
  "submit_env \<Rightarrow> datetime \<Rightarrow> string \<Rightarrow> string option \<Rightarrow> string \<Rightarrow> string \<Rightarrow> string option \<Rightarrow>
     world \<Rightarrow> (HTTPException + AnalysisRequestResponse) \<times> world" where
  "submit_analysis S now file_id fname content query em w =
     (case submit_body S now file_id fname content query em w of
        (Inr response, w1) \<Rightarrow> (Inr response, w1)
      | (Inl (Inl h), w1) \<Rightarrow> (Inl h, w1)
      | (Inl (Inr e), w1) \<Rightarrow>
          (let file_path = ''data/financial_document_'' @ file_id @ ''.pdf'';
               w2 = emit (Log_error (''[Analyze '' @ file_id @ ''] Error: '' @ e)) w1
           in (Inl (HTTPException 500 (Detail (''Error submitting analysis: '' @ e))),
               w2\<lparr>files := filter (\<lambda>f. fst f \<noteq> file_path) (files w2)\<rparr>)))"

section \<open>A JSON codec and tables for concrete runs\<close>

text \<open>
  To run the task on concrete inputs, \<open>json.dumps\<close> is instantiated by \<open>dumps\<close>, which
  writes a value as \<open>json.dumps\<close> does when no string in it needs an escape, and
  \<open>json.loads\<close> by \<open>loads_among known\<close>, which reads back the texts of the listed values
  and takes every other text as not being JSON.
\<close>

definition digit :: "nat \<Rightarrow> char" where
  "digit n = ''0123456789'' ! n"

function show_nat :: "nat \<Rightarrow> string" where
  "show_nat n = (if n < 10 then [digit n] else show_nat (n div 10) @ [digit (n mod 10)])"
  by pat_completeness auto
termination
  by (relation "measure (\<lambda>n. n)") auto

definition show_int :: "int \<Rightarrow> string" where
  "show_int i = (if i < 0 then CHR ''-'' # show_nat (nat (- i)) else show_nat (nat i))"

definition quoted :: "string \<Rightarrow> string" where
  "quoted s = CHR 0x22 # s @ [CHR 0x22]"

fun join :: "string \<Rightarrow> string list \<Rightarrow> string" where
  "join sep [] = []"
| "join sep [x] = x"
| "join sep (x # y # ys) = x @ sep @ join sep (y # ys)"

fun dumps :: "json \<Rightarrow> string" where
  "dumps JNull = ''null''"
| "dumps (JBool b) = (if b then ''true'' else ''false'')"
| "dumps (JNum i) = show_int i"
| "dumps (JStr s) = quoted s"
| "dumps (JArr xs) = ''['' @ join '', '' (map dumps xs) @ '']''"
| "dumps (JObj kvs) =
     ''{'' @ join '', '' (map (\<lambda>(k, v). quoted k @ '': '' @ dumps v) kvs) @ ''}''"

definition loads_among :: "json list \<Rightarrow> string \<Rightarrow> json option" where
  "loads_among known s = find (\<lambda>j. dumps j = s) known"

text \<open>An environment in which no database call raises.\<close>

definition env_of :: "(string \<Rightarrow> outcome) \<Rightarrow> json list \<Rightarrow> env" where
  "env_of k known =
     \<lparr>kickoff = k, json_loads = loads_among known, json_dumps = dumps,
      session_error = None, running_error = None, result_error = None, failed_error = None,
      close_error = None\<rparr>"

text \<open>A world that holds only the given rows of \<open>analysis_results\<close>.\<close>

definition world_of :: "AnalysisResult list \<Rightarrow> world" where
  "world_of rows = \<lparr>files = [], users = [], analysis_results = rows, queue = [], events = []\<rparr>"

text \<open>The row that \<open>create_analysis\<close> writes for task \<open>job-1\<close> at time 1000, and later states of it.\<close>

definition job :: "string \<Rightarrow> AnalysisResult" where
  "job st =
     \<lparr>id' = ''job-1'', user_id = None, filename = ''report.pdf'', status = st,
      result_json = JNull, error_message = None, created_at = 1000, completed_at = None\<rparr>"

text \<open>Crews that raise, or return a text, whatever the query.\<close>

definition crew_raises :: "string \<Rightarrow> string \<Rightarrow> outcome" where
  "crew_raises e query = Raises e"

definition crew_returns :: "string \<Rightarrow> string \<Rightarrow> outcome" where
  "crew_returns text query = Returns text"

text \<open>A completed job with its result.\<close>

definition done_job :: AnalysisResult where
  "done_job =
     \<lparr>id' = ''job-1'', user_id = Some 7, filename = ''report.pdf'', status = ''completed'',
      result_json = JObj [(''recommendation'', JStr ''BUY''), (''confidence_score'', JNum 80)],
      error_message = None, created_at = 1000, completed_at = Some 2000\<rparr>"


text \<open>A submission during which nothing outside the program fails.\<close>

definition no_submit_errors :: submit_env where
  "no_submit_errors =
     \<lparr>write_error = None, user_error = None, create_error = None, enqueue_error = None\<rparr>"

text \<open>An environment in which storing the result raises: the database is locked.\<close>

definition locked_env :: env where
  "locked_env = (env_of (crew_returns ''plain text'') [])\<lparr>result_error := Some ''database is locked''\<rparr>"

section \<open>Lemmas about the CRUD operations\<close>

lemma get_analysis_id: "get_analysis task_id w = Some a \<Longrightarrow> id' a = task_id"
  by (auto simp: get_analysis_def dest: find_Some_iff[THEN iffD1])

lemma find_map_replace:
  "find (\<lambda>r. id' r = k) (map (\<lambda>r. if id' r = id' a then a else r) rows) =
     (if k = id' a then map_option (\<lambda>_. a) (find (\<lambda>r. id' r = k) rows)
      else find (\<lambda>r. id' r = k) rows)"
  by (induction rows) auto

lemma get_analysis_emit [simp]: "get_analysis k (emit e w) = get_analysis k w"
  by (simp add: get_analysis_def emit_def)

lemma analysis_results_emit [simp]: "analysis_results (emit e w) = analysis_results w"
  by (simp add: emit_def)

lemma events_emit [simp]: "events (emit e w) = events w @ [e]"
  by (simp add: emit_def)

lemma get_analysis_commit:
  "get_analysis k (commit a w) =
     (if k = id' a then map_option (\<lambda>_. a) (get_analysis k w) else get_analysis k w)"
  by (simp add: get_analysis_def commit_def emit_def find_map_replace)

lemma update_analysis_status_found:
  assumes "get_analysis task_id w = Some a"
  shows "get_analysis task_id (snd (update_analysis_status now task_id st msg w)) =
           Some (a\<lparr>status := st,
                   error_message := (if truthy msg then msg else error_message a),
                   completed_at := (if st = ''completed'' then Some now else completed_at a)\<rparr>)"
  using assms get_analysis_id[OF assms]
  by (simp add: update_analysis_status_def Let_def get_analysis_commit)

lemma update_analysis_result_found:
  assumes "get_analysis task_id w = Some a"
  shows "get_analysis task_id (snd (update_analysis_result now task_id st res w)) =
           Some (a\<lparr>status := st, result_json := res, completed_at := Some now\<rparr>)"
  using assms get_analysis_id[OF assms]
  by (simp add: update_analysis_result_def Let_def get_analysis_commit)

lemma update_analysis_status_missing:
  "get_analysis task_id w = None \<Longrightarrow>
     update_analysis_status now task_id st msg w =
       (None, emit (Log_error (''[CRUD] Could not update status - analysis not found: '' @ task_id)) w)"
  by (simp add: update_analysis_status_def)

lemma update_analysis_result_missing:
  "get_analysis task_id w = None \<Longrightarrow>
     update_analysis_result now task_id st res w =
       (None, emit (Log_error (''[CRUD] Could not update result - analysis not found: '' @ task_id)) w)"
  by (simp add: update_analysis_result_def)

section \<open>The fields of a job record under the CRUD updates\<close>

text \<open>
  Claim C2 says that \<open>completed_at\<close> is null if and only if the status is pending or
  running. On the code a record that goes from running to failed keeps a null
  \<open>completed_at\<close>: \<open>update_analysis_status\<close> writes it only for the status
  \<open>completed\<close>.
\<close>

theorem completed_at_counterexample:
  "get_analysis ''job-1''
     (snd (update_analysis_status 2000 ''job-1'' ''failed'' (Some ''boom'') (world_of [job ''running'']))) =
   Some \<lparr>id' = ''job-1'', user_id = None, filename = ''report.pdf'', status = ''failed'',
      result_json = JNull, error_message = Some ''boom'', created_at = 1000, completed_at = None\<rparr>"
  by code_simp

text \<open>
  C2, as the code has it: on a record that exists, \<open>update_analysis_status\<close> sets
  \<open>completed_at\<close> to the current time when the new status is \<open>completed\<close> and leaves
  it as it was for every other status (failed too); \<open>update_analysis_result\<close> always
  sets it to the current time, whatever it was before.
\<close>

theorem completed_at_written:
  assumes "get_analysis task_id w = Some a"
  shows "(\<exists>a'. get_analysis task_id (snd (update_analysis_status now task_id st msg w)) = Some a' \<and>
               completed_at a' = (if st = ''completed'' then Some now else completed_at a)) \<and>
         (\<exists>a'. get_analysis task_id (snd (update_analysis_result now task_id st2 res w)) = Some a' \<and>
               completed_at a' = Some now)"
  by (simp add: update_analysis_status_found[OF assms] update_analysis_result_found[OF assms])

theorem completed_at_written_witness:
  "get_analysis ''job-1'' (world_of [job ''running'']) = Some (job ''running'') \<and>
   (\<exists>a'. get_analysis ''job-1''
           (snd (update_analysis_status 2000 ''job-1'' ''failed'' (Some ''boom'') (world_of [job ''running''])))
         = Some a' \<and> completed_at a' = completed_at (job ''running'')) \<and>
   (\<exists>a'. get_analysis ''job-1''
           (snd (update_analysis_result 2000 ''job-1'' ''completed'' JNull (world_of [job ''running''])))
         = Some a' \<and> completed_at a' = Some 2000)"
proof -
  have h: "get_analysis ''job-1'' (world_of [job ''running'']) = Some (job ''running'')"
    by (simp add: get_analysis_def world_of_def job_def)
  show ?thesis
    using h completed_at_written[OF h, where now = 2000 and st = "''failed''" and msg = "Some ''boom''"
        and ?st2.0 = "''completed''" and res = JNull]
    by simp
qed

text \<open>
  Claim C3 says that no status ever reverts and that a transition on a record in a terminal
  state is rejected or is a no-op. On the code a completed record is set back to running
  by \<open>update_analysis_status\<close>, as a second run of the task for the same id does.
\<close>

theorem status_overwritten_counterexample:
  "get_analysis ''job-1''
     (snd (update_analysis_status 3000 ''job-1'' ''running'' None
        (world_of [\<lparr>id' = ''job-1'', user_id = None, filename = ''report.pdf'', status = ''completed'',
                     result_json = JObj [(''recommendation'', JStr ''BUY'')], error_message = None,
                     created_at = 1000, completed_at = Some 2000\<rparr>]))) =
   Some \<lparr>id' = ''job-1'', user_id = None, filename = ''report.pdf'', status = ''running'',
      result_json = JObj [(''recommendation'', JStr ''BUY'')], error_message = None,
      created_at = 1000, completed_at = Some 2000\<rparr>"
  by code_simp

text \<open>
  C3, as the code has it: the store validates no transition. On a record that exists,
  \<open>update_analysis_status\<close> and \<open>update_analysis_result\<close> write the status they are given,
  whatever the record's status was; only when no record has the id are they a no-op,
  which returns \<open>None\<close> and leaves the table as it was.
\<close>

theorem status_overwritten:
  "(get_analysis task_id w = Some a \<longrightarrow>
      (\<exists>a'. get_analysis task_id (snd (update_analysis_status now task_id st msg w)) = Some a' \<and>
            status a' = st) \<and>
      (\<exists>a'. get_analysis task_id (snd (update_analysis_result now task_id st2 res w)) = Some a' \<and>
            status a' = st2)) \<and>
   (get_analysis task_id w = None \<longrightarrow>
      fst (update_analysis_status now task_id st msg w) = None \<and>
      analysis_results (snd (update_analysis_status now task_id st msg w)) = analysis_results w \<and>
      fst (update_analysis_result now task_id st2 res w) = None \<and>
      analysis_results (snd (update_analysis_result now task_id st2 res w)) = analysis_results w)"
  by (simp add: update_analysis_status_found update_analysis_result_found
      update_analysis_status_missing update_analysis_result_missing)

theorem status_overwritten_witness:
  "get_analysis ''job-1'' (world_of [job ''failed'']) = Some (job ''failed'') \<and>
   (\<exists>a'. get_analysis ''job-1''
           (snd (update_analysis_status 2000 ''job-1'' ''pending'' None (world_of [job ''failed''])))
         = Some a' \<and> status a' = ''pending'') \<and>
   (\<exists>a'. get_analysis ''job-1''
           (snd (update_analysis_result 2000 ''job-1'' ''completed'' JNull (world_of [job ''failed''])))
         = Some a' \<and> status a' = ''completed'') \<and>
   get_analysis ''job-2'' (world_of [job ''failed'']) = None \<and>
   fst (update_analysis_status 2000 ''job-2'' ''running'' None (world_of [job ''failed''])) = None \<and>
   analysis_results (snd (update_analysis_status 2000 ''job-2'' ''running'' None (world_of [job ''failed'']))) =
     analysis_results (world_of [job ''failed''])"
proof -
  have h: "get_analysis ''job-1'' (world_of [job ''failed'']) = Some (job ''failed'')"
    by (simp add: get_analysis_def world_of_def job_def)
  have n: "get_analysis ''job-2'' (world_of [job ''failed'']) = None"
    by (simp add: get_analysis_def world_of_def job_def)
  show ?thesis
    using h n
      status_overwritten[where task_id = "''job-1''" and w = "world_of [job ''failed'']"
        and a = "job ''failed''" and now = 2000 and st = "''pending''" and msg = None
        and ?st2.0 = "''completed''" and res = JNull]
      status_overwritten[where task_id = "''job-2''" and w = "world_of [job ''failed'']"
        and now = 2000 and st = "''running''" and msg = None]
    by simp
qed

text \<open>
  Claim C7 says that \<open>error_detail\<close> is non-null if and only if the status is failed (and
  the result if and only if it is completed). On the code a job that fails with an
  exception whose message is empty becomes failed with a null \<open>error_message\<close>: the
  message is stored only under \<open>if error_message:\<close>.
\<close>

theorem result_and_error_counterexample:
  "get_analysis ''job-1''
     (snd (update_analysis_status 2000 ''job-1'' ''failed'' (Some '''') (world_of [job ''running'']))) =
   Some \<lparr>id' = ''job-1'', user_id = None, filename = ''report.pdf'', status = ''failed'',
      result_json = JNull, error_message = None, created_at = 1000, completed_at = None\<rparr>"
  by code_simp

text \<open>
  C7, as the code has it: on a record that exists, \<open>update_analysis_status\<close> never
  touches \<open>result_json\<close> and writes \<open>error_message\<close> exactly when it is given a
  non-empty message, whatever the new status; \<open>update_analysis_result\<close> writes the
  result it is given, whatever the new status, and never touches \<open>error_message\<close>.
  Neither field is ever cleared.
\<close>

theorem result_and_error_written:
  assumes "get_analysis task_id w = Some a"
  shows "(\<exists>a'. get_analysis task_id (snd (update_analysis_status now task_id st msg w)) = Some a' \<and>
               result_json a' = result_json a \<and>
               error_message a' = (if truthy msg then msg else error_message a)) \<and>
         (\<exists>a'. get_analysis task_id (snd (update_analysis_result now task_id st2 res w)) = Some a' \<and>
               result_json a' = res \<and> error_message a' = error_message a)"
  by (simp add: update_analysis_status_found[OF assms] update_analysis_result_found[OF assms])

theorem result_and_error_written_witness:
  "get_analysis ''job-1'' (world_of [job ''running'']) = Some (job ''running'') \<and>
   (\<exists>a'. get_analysis ''job-1''
           (snd (update_analysis_status 2000 ''job-1'' ''failed'' (Some ''boom'') (world_of [job ''running''])))
         = Some a' \<and> result_json a' = JNull \<and> error_message a' = Some ''boom'') \<and>
   (\<exists>a'. get_analysis ''job-1''
           (snd (update_analysis_result 2000 ''job-1'' ''completed'' (JObj [(''recommendation'', JStr ''BUY'')])
              (world_of [job ''running''])))
         = Some a' \<and> result_json a' = JObj [(''recommendation'', JStr ''BUY'')] \<and> error_message a' = None)"
proof -
  have h: "get_analysis ''job-1'' (world_of [job ''running'']) = Some (job ''running'')"
    by (simp add: get_analysis_def world_of_def job_def)
  show ?thesis
    using h result_and_error_written[OF h, where now = 2000 and st = "''failed''"
        and msg = "Some ''boom''" and ?st2.0 = "''completed''"
        and res = "JObj [(''recommendation'', JStr ''BUY'')]"]
    by (simp add: job_def)
qed

section \<open>The retention sweep\<close>











section \<open>The query endpoints\<close>

text \<open>
  C5: \<open>GET /status/{task_id}\<close> answers 404 when no record has the id, and otherwise the
  record's status with the progress 0 for pending, 50 for running, 100 for completed and
  0 for failed.
\<close>

theorem check_status_spec:
  "(get_analysis task_id w = None \<longrightarrow>
      check_status task_id w = Inl (HTTPException 404 (Detail (''Task '' @ task_id @ '' not found'')))) \<and>
   (\<forall>a. get_analysis task_id w = Some a \<longrightarrow>
      (status a = ''pending'' \<longrightarrow>
         check_status task_id w = Inr (AnalysisStatusResponse task_id ''pending'' (Some 0))) \<and>
      (status a = ''running'' \<longrightarrow>
         check_status task_id w = Inr (AnalysisStatusResponse task_id ''running'' (Some 50))) \<and>
      (status a = ''completed'' \<longrightarrow>
         check_status task_id w = Inr (AnalysisStatusResponse task_id ''completed'' (Some 100))) \<and>
      (status a = ''failed'' \<longrightarrow>
         check_status task_id w = Inr (AnalysisStatusResponse task_id ''failed'' (Some 0))))"
  by (simp add: check_status_def new_AnalysisStatusResponse_def progress_of_def)

theorem check_status_spec_witness:
  "get_analysis ''job-2'' (world_of [job ''running'']) = None \<and>
   check_status ''job-2'' (world_of [job ''running'']) =
     Inl (HTTPException 404 (Detail ''Task job-2 not found'')) \<and>
   get_analysis ''job-1'' (world_of [job ''pending'']) = Some (job ''pending'') \<and>
   check_status ''job-1'' (world_of [job ''pending'']) =
     Inr (AnalysisStatusResponse ''job-1'' ''pending'' (Some 0)) \<and>
   get_analysis ''job-1'' (world_of [job ''running'']) = Some (job ''running'') \<and>
   check_status ''job-1'' (world_of [job ''running'']) =
     Inr (AnalysisStatusResponse ''job-1'' ''running'' (Some 50)) \<and>
   get_analysis ''job-1'' (world_of [job ''completed'']) = Some (job ''completed'') \<and>
   check_status ''job-1'' (world_of [job ''completed'']) =
     Inr (AnalysisStatusResponse ''job-1'' ''completed'' (Some 100)) \<and>
   get_analysis ''job-1'' (world_of [job ''failed'']) = Some (job ''failed'') \<and>
   check_status ''job-1'' (world_of [job ''failed'']) =
     Inr (AnalysisStatusResponse ''job-1'' ''failed'' (Some 0))"
proof -
  have n: "get_analysis ''job-2'' (world_of [job ''running'']) = None"
    by (simp add: get_analysis_def world_of_def job_def)
  have h: "get_analysis ''job-1'' (world_of [job st]) = Some (job st)" for st
    by (simp add: get_analysis_def world_of_def job_def)
  have s: "status (job st) = st" for st
    by (simp add: job_def)
  show ?thesis
    using n h s
      check_status_spec[of "''job-2''" "world_of [job ''running'']"]
      check_status_spec[of "''job-1''" "world_of [job ''pending'']"]
      check_status_spec[of "''job-1''" "world_of [job ''running'']"]
      check_status_spec[of "''job-1''" "world_of [job ''completed'']"]
      check_status_spec[of "''job-1''" "world_of [job ''failed'']"]
    by simp
qed

text \<open>
  C6 (a defect of the code): the claim says that for a record that is neither pending,
  running nor failed \<open>GET /analysis/{task_id}\<close> returns the full record, and so does the
  endpoint's docstring (``Returns full analysis with all details and timestamps'' once
  the status is completed). When the crew's text is JSON that is not an object, here the
  array \<open>["BUY", 80]\<close>, the task stores the array as the result of the completed job
  \<open>job-1\<close>, although \<open>update_analysis_result\<close> declares \<open>result_json: dict\<close> and the
  task wraps a text that is not JSON in an object. The endpoint then answers 500 for
  this completed job: the field \<open>result\<close> of the response schema is an \<open>Optional[dict]\<close>.
\<close>

theorem completed_result_not_returned:
  "analysis_results
     (snd (analyze_document_task
             (env_of (crew_returns (dumps (JArr [JStr ''BUY'', JNum 80]))) [JArr [JStr ''BUY'', JNum 80]])
             2000 ''job-1'' ''data/financial_document_job-1.pdf'' ''Analyze this'' None
             (world_of [job ''pending'']))) =
     [\<lparr>id' = ''job-1'', user_id = None, filename = ''report.pdf'', status = ''completed'',
       result_json = JArr [JStr ''BUY'', JNum 80], error_message = None,
       created_at = 1000, completed_at = Some 2000\<rparr>] \<and>
   get_analysis_result ''job-1''
     (snd (analyze_document_task
             (env_of (crew_returns (dumps (JArr [JStr ''BUY'', JNum 80]))) [JArr [JStr ''BUY'', JNum 80]])
             2000 ''job-1'' ''data/financial_document_job-1.pdf'' ''Analyze this'' None
             (world_of [job ''pending'']))) =
   Inl (HTTPException 500
          (Detail_exc ''Error retrieving analysis: '' (ValidationError ''AnalysisResultResponse'' ''result'')))"
  by code_simp

text \<open>
  What \<open>GET /analysis/{task_id}\<close> answers in each case: 404 when no record has the id;
  202 with a message and no data when the record is pending or running; 400 with the
  record's \<open>error_message\<close> in the detail when it is failed; and otherwise the full record
  (id, owner id, filename, status, result, error, both timestamps) when the stored result
  is null or a JSON object. Any other stored result makes the response schema fail.
\<close>

theorem get_analysis_result_spec:
  "(get_analysis task_id w = None \<longrightarrow>
      get_analysis_result task_id w =
        Inl (HTTPException 404 (Detail (''Analysis '' @ task_id @ '' not found'')))) \<and>
   (\<forall>a. get_analysis task_id w = Some a \<longrightarrow>
      (status a = ''pending'' \<or> status a = ''running'' \<longrightarrow>
         get_analysis_result task_id w =
           Inl (HTTPException 202
                  (Detail (''Analysis still processing. Current status: '' @ status a
                           @ ''. Check /status/'' @ task_id)))) \<and>
      (status a = ''failed'' \<longrightarrow>
         get_analysis_result task_id w =
           Inl (HTTPException 400 (Detail (''Analysis failed: '' @ str_opt (error_message a))))) \<and>
      (status a \<notin> {''pending'', ''running'', ''failed''} \<and>
       (result_json a = JNull \<or> is_dict (result_json a)) \<longrightarrow>
         get_analysis_result task_id w =
           Inr (AnalysisResultResponse (id' a) (user_id a) (filename a) (status a)
                  (result_json a) (error_message a) (created_at a) (completed_at a))) \<and>
      (status a \<notin> {''pending'', ''running'', ''failed''} \<and>
       \<not> (result_json a = JNull \<or> is_dict (result_json a)) \<longrightarrow>
         get_analysis_result task_id w =
           Inl (HTTPException 500
                  (Detail_exc ''Error retrieving analysis: ''
                     (ValidationError ''AnalysisResultResponse'' ''result'')))))"
  by (simp add: get_analysis_result_def new_AnalysisResultResponse_def)

theorem get_analysis_result_spec_witness:
  "get_analysis ''job-2'' (world_of [done_job]) = None \<and>
   get_analysis_result ''job-2'' (world_of [done_job]) =
     Inl (HTTPException 404 (Detail ''Analysis job-2 not found'')) \<and>
   get_analysis ''job-1'' (world_of [job ''running'']) = Some (job ''running'') \<and>
   get_analysis_result ''job-1'' (world_of [job ''running'']) =
     Inl (HTTPException 202
            (Detail ''Analysis still processing. Current status: running. Check /status/job-1'')) \<and>
   get_analysis ''job-1'' (world_of [(job ''failed'')\<lparr>error_message := Some ''boom''\<rparr>]) =
     Some ((job ''failed'')\<lparr>error_message := Some ''boom''\<rparr>) \<and>
   get_analysis_result ''job-1'' (world_of [(job ''failed'')\<lparr>error_message := Some ''boom''\<rparr>]) =
     Inl (HTTPException 400 (Detail ''Analysis failed: boom'')) \<and>
   get_analysis ''job-1'' (world_of [done_job]) = Some done_job \<and>
   get_analysis_result ''job-1'' (world_of [done_job]) =
     Inr (AnalysisResultResponse ''job-1'' (Some 7) ''report.pdf'' ''completed''
            (JObj [(''recommendation'', JStr ''BUY''), (''confidence_score'', JNum 80)])
            None 1000 (Some 2000)) \<and>
   get_analysis ''job-1'' (world_of [done_job\<lparr>result_json := JNum 42\<rparr>]) =
     Some (done_job\<lparr>result_json := JNum 42\<rparr>) \<and>
   get_analysis_result ''job-1'' (world_of [done_job\<lparr>result_json := JNum 42\<rparr>]) =
     Inl (HTTPException 500
            (Detail_exc ''Error retrieving analysis: ''
               (ValidationError ''AnalysisResultResponse'' ''result'')))"
proof -
  have n: "get_analysis ''job-2'' (world_of [done_job]) = None"
    by (simp add: get_analysis_def world_of_def done_job_def)
  have r: "get_analysis ''job-1'' (world_of [job ''running'']) = Some (job ''running'')"
    by (simp add: get_analysis_def world_of_def job_def)
  have f: "get_analysis ''job-1'' (world_of [(job ''failed'')\<lparr>error_message := Some ''boom''\<rparr>]) =
     Some ((job ''failed'')\<lparr>error_message := Some ''boom''\<rparr>)"
    by (simp add: get_analysis_def world_of_def job_def)
  have d: "get_analysis ''job-1'' (world_of [done_job]) = Some done_job"
    by (simp add: get_analysis_def world_of_def done_job_def)
  have e: "get_analysis ''job-1'' (world_of [done_job\<lparr>result_json := JNum 42\<rparr>]) =
     Some (done_job\<lparr>result_json := JNum 42\<rparr>)"
    by (simp add: get_analysis_def world_of_def done_job_def)
  show ?thesis
    using n r f d e
      get_analysis_result_spec[of "''job-2''" "world_of [done_job]"]
      get_analysis_result_spec[of "''job-1''" "world_of [job ''running'']"]
      get_analysis_result_spec[of "''job-1''" "world_of [(job ''failed'')\<lparr>error_message := Some ''boom''\<rparr>]"]
      get_analysis_result_spec[of "''job-1''" "world_of [done_job]"]
      get_analysis_result_spec[of "''job-1''" "world_of [done_job\<lparr>result_json := JNum 42\<rparr>]"]
    by (simp add: job_def done_job_def)
qed

section \<open>The background task\<close>

lemmas task_defs =
  analyze_document_task_def task_body_def run_crew_analysis_def crew_body_def on_error_def
  close_session_def

lemma rows_update_status_emit:
  "analysis_results (snd (update_analysis_status now t st m (emit e w))) =
   analysis_results (snd (update_analysis_status now t st m w))"
  by (simp add: update_analysis_status_def commit_def Let_def split: option.splits)

lemma rows_update_result_emit:
  "analysis_results (snd (update_analysis_result now t st r (emit e w))) =
   analysis_results (snd (update_analysis_result now t st r w))"
  by (simp add: update_analysis_result_def commit_def Let_def split: option.splits)

text \<open>
  C10: for every query and file path \<open>run_crew_analysis\<close> returns a text and never
  raises: when the crew raises an exception with message \<open>e\<close>, what it returns is
  \<open>json.dumps({"error": e, "status": "failed"})\<close>. The task cannot tell the two apart:
  its return value and the rows it leaves are the same for a crew that raises \<open>e\<close> and
  for a crew that returns that text.
\<close>

theorem run_crew_analysis_never_raises:
  "fst (run_crew_analysis E query file_path w) =
     Inr (case kickoff E query of
            Returns result \<Rightarrow> result
          | Raises e \<Rightarrow> json_dumps E (JObj [(''error'', JStr e), (''status'', JStr ''failed'')])) \<and>
   fst (analyze_document_task (E\<lparr>kickoff := \<lambda>q. Raises e\<rparr>) now task_id file_path query uid w) =
   fst (analyze_document_task
          (E\<lparr>kickoff := \<lambda>q. Returns (json_dumps E (JObj [(''error'', JStr e), (''status'', JStr ''failed'')]))\<rparr>)
          now task_id file_path query uid w) \<and>
   analysis_results
     (snd (analyze_document_task (E\<lparr>kickoff := \<lambda>q. Raises e\<rparr>) now task_id file_path query uid w)) =
   analysis_results
     (snd (analyze_document_task
          (E\<lparr>kickoff := \<lambda>q. Returns (json_dumps E (JObj [(''error'', JStr e), (''status'', JStr ''failed'')]))\<rparr>)
          now task_id file_path query uid w))"
proof -
  have 1: "fst (run_crew_analysis E query file_path w) =
     Inr (case kickoff E query of
            Returns result \<Rightarrow> result
          | Raises e \<Rightarrow> json_dumps E (JObj [(''error'', JStr e), (''status'', JStr ''failed'')]))"
    by (simp add: run_crew_analysis_def crew_body_def split: outcome.splits)
  have 2: "fst (analyze_document_task (E\<lparr>kickoff := \<lambda>q. Raises e\<rparr>) now task_id file_path query uid w) =
   fst (analyze_document_task
          (E\<lparr>kickoff := \<lambda>q. Returns (json_dumps E (JObj [(''error'', JStr e), (''status'', JStr ''failed'')]))\<rparr>)
          now task_id file_path query uid w)"
    by (simp add: task_defs Let_def split: option.splits)
  have 3: "analysis_results
     (snd (analyze_document_task (E\<lparr>kickoff := \<lambda>q. Raises e\<rparr>) now task_id file_path query uid w)) =
   analysis_results
     (snd (analyze_document_task
          (E\<lparr>kickoff := \<lambda>q. Returns (json_dumps E (JObj [(''error'', JStr e), (''status'', JStr ''failed'')]))\<rparr>)
          now task_id file_path query uid w))"
    by (simp add: task_defs Let_def rows_update_status_emit rows_update_result_emit
        split: option.splits)
  from 1 2 3 show ?thesis by blast
qed

text \<open>
  C1 (a defect of the code): the claim says that a job whose analysis step raises
  becomes failed, with the exception's message as \<open>error_detail\<close>, and that the failure
  is reported to the queue after the database update. The handler of the task is written
  to do that (``Error occurred - update database to reflect failure''), but an exception
  of the crew never reaches it: \<open>run_crew_analysis\<close> catches it and returns a text. For a
  crew that raises \<open>boom\<close> on the pending job \<open>job-1\<close> the task returns normally, the
  record is completed with the error payload as its result, its \<open>error_message\<close> is
  null, and \<open>update_state\<close> is not called.
\<close>

theorem crew_failure_ends_completed:
  "analyze_document_task
     (env_of (crew_raises ''boom'') [JObj [(''error'', JStr ''boom''), (''status'', JStr ''failed'')]])
     2000 ''job-1'' ''data/financial_document_job-1.pdf'' ''Analyze this'' None
     (world_of [job ''pending'']) =
   (Inr (''completed'', ''job-1'', JObj [(''error'', JStr ''boom''), (''status'', JStr ''failed'')]),
    \<lparr>files = [], users = [],
     analysis_results =
       [\<lparr>id' = ''job-1'', user_id = None, filename = ''report.pdf'', status = ''completed'',
         result_json = JObj [(''error'', JStr ''boom''), (''status'', JStr ''failed'')],
         error_message = None, created_at = 1000, completed_at = Some 2000\<rparr>],
     queue = [],
     events =
       [Db_commit ''job-1'' ''running'', Crew_kickoff ''Analyze this'',
        Log_error ''[CrewAI] Analysis failed: boom'', Db_commit ''job-1'' ''completed'',
        Session_close]\<rparr>)"
  by code_simp

lemma get_analysis_update_status_other:
  "get_analysis t (snd (update_analysis_status now t st m w)) =
     map_option (\<lambda>a. a\<lparr>status := st,
                   error_message := (if truthy m then m else error_message a),
                   completed_at := (if st = ''completed'' then Some now else completed_at a)\<rparr>)
       (get_analysis t w)"
proof (cases "get_analysis t w")
  case None
  then show ?thesis by (simp add: update_analysis_status_missing)
next
  case (Some a)
  then show ?thesis by (simp add: update_analysis_status_found)
qed

lemma events_update_status_found:
  "get_analysis t w = Some a \<Longrightarrow>
     events (snd (update_analysis_status now t st m w)) = events w @ [Db_commit t st]"
  using get_analysis_id[of t w a]
  by (simp add: update_analysis_status_def commit_def Let_def emit_def)

lemma get_analysis_run_crew [simp]:
  "get_analysis t (snd (run_crew_analysis E q f w)) = get_analysis t w"
  by (simp add: run_crew_analysis_def crew_body_def split: outcome.splits)

lemma fst_run_crew:
  "fst (run_crew_analysis E q f w) =
     Inr (case kickoff E q of Returns r \<Rightarrow> r
          | Raises e \<Rightarrow> json_dumps E (JObj [(''error'', JStr e), (''status'', JStr ''failed'')]))"
  by (simp add: run_crew_analysis_def crew_body_def split: outcome.splits)

text \<open>The try block raises exactly when a database call does.\<close>

lemma task_body_raises:
  assumes "session_error E = None"
    and "running_error E = Some m \<or> (running_error E = None \<and> result_error E = Some m)"
    and "get_analysis task_id w = Some a"
  shows "\<exists>w1 a1. task_body E now task_id file_path query w = (True, Inl m, w1) \<and>
           get_analysis task_id w1 = Some a1 \<and> error_message a1 = error_message a"
proof -
  obtain r w2 where rc: "run_crew_analysis E query file_path
      (snd (update_analysis_status now task_id ''running'' None w)) = (r, w2)"
    by (cases "run_crew_analysis E query file_path
      (snd (update_analysis_status now task_id ''running'' None w))") auto
  have r: "\<exists>s. r = Inr s"
    using fst_run_crew[of E query file_path "snd (update_analysis_status now task_id ''running'' None w)"] rc
    by simp
  have g: "get_analysis task_id w2 =
      Some (a\<lparr>status := ''running''\<rparr>)"
    using get_analysis_run_crew[of task_id E query file_path
        "snd (update_analysis_status now task_id ''running'' None w)"] rc
      update_analysis_status_found[OF assms(3), of now "''running''" None]
    by simp
  from assms(2) show ?thesis
  proof
    assume "running_error E = Some m"
    then show ?thesis using assms(1,3) by (simp add: task_body_def)
  next
    assume "running_error E = None \<and> result_error E = Some m"
    then show ?thesis using assms(1) rc r g by (auto simp: task_body_def Let_def)
  qed
qed

text \<open>
  The handler of the task, on the path that does reach it: when a database call of the
  \<open>try\<close> block (the update to running, or the storing of the result) raises an exception
  with message \<open>m\<close>, the session was created, the job's record exists and the handler's
  own update does not raise, then the task raises \<open>m\<close> again to the queue, the record is
  failed, its \<open>error_message\<close> is \<open>m\<close> when \<open>m\<close> is not empty (and what it was before
  otherwise), and the commit of the failed status comes right before the call of
  \<open>update_state\<close> with the state \<open>FAILURE\<close>.
\<close>

theorem task_failure_recorded:
  assumes "session_error E = None" and "failed_error E = None"
    and "running_error E = Some m \<or> (running_error E = None \<and> result_error E = Some m)"
    and "get_analysis task_id w = Some a"
  shows "fst (analyze_document_task E now task_id file_path query uid w) = Inl m \<and>
         (\<exists>a'. get_analysis task_id (snd (analyze_document_task E now task_id file_path query uid w)) = Some a' \<and>
               status a' = ''failed'' \<and>
               error_message a' = (if m = [] then error_message a else Some m)) \<and>
         (\<exists>before after.
            events (snd (analyze_document_task E now task_id file_path query uid w)) =
              before @ [Db_commit task_id ''failed'', Update_state ''FAILURE'' m task_id] @ after)"
proof -
  obtain w1 a1 where tb: "task_body E now task_id file_path query w = (True, Inl m, w1)"
    and g1: "get_analysis task_id w1 = Some a1" and e1: "error_message a1 = error_message a"
    using task_body_raises[OF assms(1,3,4)] by blast
  let ?l = "Log_error (''[Task '' @ task_id @ ''] Analysis failed with error: '' @ m)"
  let ?w2 = "snd (update_analysis_status now task_id ''failed'' (Some m) (emit ?l w1))"
  have oe: "on_error E now task_id True m w1 = emit (Update_state ''FAILURE'' m task_id) ?w2"
    using assms(2) by (simp add: on_error_def Let_def)
  have res: "analyze_document_task E now task_id file_path query uid w =
      (Inl m, close_session E task_id True (emit (Update_state ''FAILURE'' m task_id) ?w2))"
    by (simp add: analyze_document_task_def tb oe)
  have g1': "get_analysis task_id (emit ?l w1) = Some a1" using g1 by simp
  have g2: "get_analysis task_id ?w2 =
      Some (a1\<lparr>status := ''failed'',
               error_message := (if truthy (Some m) then Some m else error_message a1),
               completed_at := (if ''failed'' = ''completed'' then Some now else completed_at a1)\<rparr>)"
    by (rule update_analysis_status_found[OF g1'])
  have ev2: "events ?w2 = (events w1 @ [?l]) @ [Db_commit task_id ''failed'']"
    using events_update_status_found[OF g1', of now "''failed''" "Some m"] by simp
  have gc: "get_analysis task_id (close_session E task_id True x) = get_analysis task_id x" for x
    by (simp add: close_session_def split: option.splits)
  have ec: "\<exists>c. events (close_session E task_id True x) = events x @ [c]" for x
    by (simp add: close_session_def split: option.splits)
  obtain c where c: "events (close_session E task_id True (emit (Update_state ''FAILURE'' m task_id) ?w2)) =
      events (emit (Update_state ''FAILURE'' m task_id) ?w2) @ [c]"
    using ec by blast
  have A: "fst (analyze_document_task E now task_id file_path query uid w) = Inl m"
    by (simp add: res)
  have B: "\<exists>a'. get_analysis task_id (snd (analyze_document_task E now task_id file_path query uid w)) = Some a' \<and>
               status a' = ''failed'' \<and>
               error_message a' = (if m = [] then error_message a else Some m)"
    using g2 e1 by (simp add: res gc)
  have "events (snd (analyze_document_task E now task_id file_path query uid w)) =
      (events w1 @ [?l]) @ [Db_commit task_id ''failed'', Update_state ''FAILURE'' m task_id] @ [c]"
    using c ev2 by (simp add: res)
  then have C: "\<exists>before after.
            events (snd (analyze_document_task E now task_id file_path query uid w)) =
              before @ [Db_commit task_id ''failed'', Update_state ''FAILURE'' m task_id] @ after"
    by blast
  from A B C show ?thesis by blast
qed

lemma locked_hyps:
  "session_error locked_env = None" "failed_error locked_env = None"
  "running_error locked_env = None" "result_error locked_env = Some ''database is locked''"
  "get_analysis ''job-1'' (world_of [job ''pending'']) = Some (job ''pending'')"
  by code_simp+

theorem task_failure_recorded_witness:
  "session_error locked_env = None \<and> failed_error locked_env = None \<and>
   running_error locked_env = None \<and> result_error locked_env = Some ''database is locked'' \<and>
   get_analysis ''job-1'' (world_of [job ''pending'']) = Some (job ''pending'') \<and>
   fst (analyze_document_task locked_env 2000 ''job-1'' ''data/financial_document_job-1.pdf''
          ''Analyze this'' None (world_of [job ''pending''])) = Inl ''database is locked'' \<and>
   (\<exists>a'. get_analysis ''job-1''
            (snd (analyze_document_task locked_env 2000 ''job-1''
                    ''data/financial_document_job-1.pdf'' ''Analyze this'' None
                    (world_of [job ''pending'']))) = Some a' \<and>
         status a' = ''failed'' \<and> error_message a' = Some ''database is locked'') \<and>
   (\<exists>before after.
      events (snd (analyze_document_task locked_env 2000 ''job-1''
                     ''data/financial_document_job-1.pdf'' ''Analyze this'' None
                     (world_of [job ''pending'']))) =
        before @ [Db_commit ''job-1'' ''failed'',
                  Update_state ''FAILURE'' ''database is locked'' ''job-1''] @ after)"
proof -
  have d: "running_error locked_env = Some ''database is locked'' \<or>
           (running_error locked_env = None \<and> result_error locked_env = Some ''database is locked'')"
    using locked_hyps by simp
  have e: "error_message (job ''pending'') = None" by (simp add: job_def)
  show ?thesis
    using task_failure_recorded[OF locked_hyps(1) locked_hyps(2) d locked_hyps(5),
        where now = 2000 and file_path = "''data/financial_document_job-1.pdf''"
          and query = "''Analyze this''" and uid = None]
      locked_hyps e
    by simp
qed

text \<open>
  Claim C4 says that a job whose record cannot be found is aborted: the crew is not
  invoked and the condition is reported as a task failure. On the code
  \<open>update_analysis_status\<close> logs the missing record and returns \<open>None\<close>, the task does not
  look at what it returns, the crew is invoked, and the task returns \<open>completed\<close>.
\<close>

theorem missing_record_counterexample:
  "analyze_document_task (env_of (crew_returns ''plain text'') [])
     2000 ''job-9'' ''data/financial_document_job-9.pdf'' ''Analyze this'' None
     (world_of [job ''pending'']) =
   (Inr (''completed'', ''job-9'', JObj [(''raw_analysis'', JStr ''plain text'')]),
    \<lparr>files = [], users = [],
     analysis_results =
       [\<lparr>id' = ''job-1'', user_id = None, filename = ''report.pdf'', status = ''pending'',
         result_json = JNull, error_message = None, created_at = 1000, completed_at = None\<rparr>],
     queue = [],
     events =
       [Log_error ''[CRUD] Could not update status - analysis not found: job-9'',
        Crew_kickoff ''Analyze this'',
        Log_error ''[CRUD] Could not update result - analysis not found: job-9'',
        Session_close]\<rparr>)"
  by code_simp

lemma events_run_crew:
  "events (snd (run_crew_analysis E q f w)) =
     events w @ [Crew_kickoff q] @
       (case kickoff E q of Returns r \<Rightarrow> []
        | Raises e \<Rightarrow> [Log_error (''[CrewAI] Analysis failed: '' @ e)])"
  by (simp add: run_crew_analysis_def crew_body_def split: outcome.splits)

lemma rows_run_crew:
  "analysis_results (snd (run_crew_analysis E q f w)) = analysis_results w"
  by (simp add: run_crew_analysis_def crew_body_def split: outcome.splits)

text \<open>
  C4, as the code has it: when no record has the task's id and no database call raises,
  the task logs that the status could not be updated, invokes the crew all the same,
  logs that the result could not be stored, and returns \<open>completed\<close> with the parsed
  result of the crew: no failure is reported. The table of jobs is left as it was.
\<close>

theorem missing_record_not_aborted:
  assumes "get_analysis task_id w = None"
    and "session_error E = None" and "running_error E = None" and "result_error E = None"
  shows "fst (analyze_document_task E now task_id file_path query uid w) =
           Inr (''completed'', task_id,
                (let text = (case kickoff E query of Returns r \<Rightarrow> r
                             | Raises e \<Rightarrow> json_dumps E (JObj [(''error'', JStr e), (''status'', JStr ''failed'')]))
                 in case json_loads E text of Some j \<Rightarrow> j
                    | None \<Rightarrow> JObj [(''raw_analysis'', JStr text)])) \<and>
         analysis_results (snd (analyze_document_task E now task_id file_path query uid w)) =
           analysis_results w \<and>
         events (snd (analyze_document_task E now task_id file_path query uid w)) =
           events w @
           [Log_error (''[CRUD] Could not update status - analysis not found: '' @ task_id),
            Crew_kickoff query] @
           (case kickoff E query of Returns r \<Rightarrow> []
            | Raises e \<Rightarrow> [Log_error (''[CrewAI] Analysis failed: '' @ e)]) @
           [Log_error (''[CRUD] Could not update result - analysis not found: '' @ task_id),
            (case close_error E of None \<Rightarrow> Session_close
             | Some close_err \<Rightarrow>
                 Log_error (''[Task '' @ task_id @ ''] Error closing session: '' @ close_err))]"
proof -
  let ?l1 = "Log_error (''[CRUD] Could not update status - analysis not found: '' @ task_id)"
  let ?l2 = "Log_error (''[CRUD] Could not update result - analysis not found: '' @ task_id)"
  let ?w1 = "emit ?l1 w"
  let ?text = "case kickoff E query of Returns r \<Rightarrow> r
     | Raises e \<Rightarrow> json_dumps E (JObj [(''error'', JStr e), (''status'', JStr ''failed'')])"
  let ?j = "case json_loads E ?text of Some j \<Rightarrow> j
     | None \<Rightarrow> JObj [(''raw_analysis'', JStr ?text)]"
  have u1: "snd (update_analysis_status now task_id ''running'' None w) = ?w1"
    by (simp add: update_analysis_status_missing[OF assms(1)])
  obtain r w2 where rc: "run_crew_analysis E query file_path ?w1 = (r, w2)"
    by (cases "run_crew_analysis E query file_path ?w1") auto
  have r: "r = Inr ?text"
    using fst_run_crew[of E query file_path ?w1] rc by simp
  have w2: "w2 = snd (run_crew_analysis E query file_path ?w1)"
    using rc by (metis snd_conv)
  have g2: "get_analysis task_id w2 = None"
    unfolding w2 using assms(1) by simp
  have ev2: "events w2 = events w @ [?l1, Crew_kickoff query] @
       (case kickoff E query of Returns r \<Rightarrow> []
        | Raises e \<Rightarrow> [Log_error (''[CrewAI] Analysis failed: '' @ e)])"
    unfolding w2 by (simp add: events_run_crew)
  have rows2: "analysis_results w2 = analysis_results w"
    unfolding w2 by (simp add: rows_run_crew)
  have u2: "snd (update_analysis_result now task_id ''completed'' ?j w2) = emit ?l2 w2"
    by (simp add: update_analysis_result_missing[OF g2])
  have tb: "task_body E now task_id file_path query w =
      (True, Inr (''completed'', task_id, ?j), emit ?l2 w2)"
    using assms(2,3,4) u1 rc r u2 by (simp add: task_body_def Let_def)
  have res: "analyze_document_task E now task_id file_path query uid w =
      (Inr (''completed'', task_id, ?j), close_session E task_id True (emit ?l2 w2))"
    by (simp add: analyze_document_task_def tb)
  have A: "fst (analyze_document_task E now task_id file_path query uid w) =
      Inr (''completed'', task_id, ?j)"
    by (simp add: res)
  have B: "analysis_results (snd (analyze_document_task E now task_id file_path query uid w)) =
      analysis_results w"
    by (simp add: res close_session_def rows2 split: option.splits)
  have C: "events (snd (analyze_document_task E now task_id file_path query uid w)) =
      events w @ [?l1, Crew_kickoff query] @
       (case kickoff E query of Returns r \<Rightarrow> []
        | Raises e \<Rightarrow> [Log_error (''[CrewAI] Analysis failed: '' @ e)]) @
       [?l2, (case close_error E of None \<Rightarrow> Session_close
             | Some close_err \<Rightarrow>
                 Log_error (''[Task '' @ task_id @ ''] Error closing session: '' @ close_err))]"
    by (simp add: res close_session_def ev2 split: option.splits)
  from A B C show ?thesis by (simp add: Let_def)
qed

lemma missing_hyps:
  "get_analysis ''job-9'' (world_of [job ''pending'']) = None"
  "session_error (env_of (crew_raises ''boom'') []) = None"
  "running_error (env_of (crew_raises ''boom'') []) = None"
  "result_error (env_of (crew_raises ''boom'') []) = None"
  by code_simp+

theorem missing_record_not_aborted_witness:
  "get_analysis ''job-9'' (world_of [job ''pending'']) = None \<and>
   session_error (env_of (crew_raises ''boom'') []) = None \<and>
   running_error (env_of (crew_raises ''boom'') []) = None \<and>
   result_error (env_of (crew_raises ''boom'') []) = None \<and>
   fst (analyze_document_task (env_of (crew_raises ''boom'') []) 2000 ''job-9''
          ''data/financial_document_job-9.pdf'' ''Analyze this'' None (world_of [job ''pending''])) =
     Inr (''completed'', ''job-9'',
          JObj [(''raw_analysis'',
                 JStr (dumps (JObj [(''error'', JStr ''boom''), (''status'', JStr ''failed'')])))]) \<and>
   analysis_results
     (snd (analyze_document_task (env_of (crew_raises ''boom'') []) 2000 ''job-9''
             ''data/financial_document_job-9.pdf'' ''Analyze this'' None (world_of [job ''pending'']))) =
     [job ''pending''] \<and>
   events
     (snd (analyze_document_task (env_of (crew_raises ''boom'') []) 2000 ''job-9''
             ''data/financial_document_job-9.pdf'' ''Analyze this'' None (world_of [job ''pending'']))) =
     [Log_error ''[CRUD] Could not update status - analysis not found: job-9'',
      Crew_kickoff ''Analyze this'',
      Log_error ''[CrewAI] Analysis failed: boom'',
      Log_error ''[CRUD] Could not update result - analysis not found: job-9'',
      Session_close]"
  using missing_record_not_aborted[OF missing_hyps,
      where now = 2000 and file_path = "''data/financial_document_job-9.pdf''"
        and query = "''Analyze this''" and uid = None]
    missing_hyps
  by (simp add: env_of_def crew_raises_def loads_among_def world_of_def)

section \<open>Submission\<close>

lemma endswith_iff: "endswith s suffix \<longleftrightarrow> (\<exists>p. s = p @ suffix)"
proof
  assume "endswith s suffix"
  then have "s = take (length s - length suffix) s @ suffix"
    by (metis append_take_drop_id endswith_def)
  then show "\<exists>p. s = p @ suffix" by blast
next
  assume "\<exists>p. s = p @ suffix"
  then show "endswith s suffix" by (auto simp: endswith_def)
qed

lemma docx: "\<not> endswith (lower ''Report.DOCX'') ''.pdf''"
  by code_simp

text \<open>A submission of a PDF stores the file, the owner and the job, and queues the task.\<close>

lemma submit_pdf_example:
  "submit_analysis no_submit_errors 5000 ''job-7'' (Some ''Report.PDF'') ''content''
       ''  '' (Some ''ann@example.org'') (world_of []) =
   (Inr (AnalysisRequestResponse ''job-7'' ''pending''
           ''Analysis submitted successfully. Use status endpoint to check progress.''
           ''/status/job-7''),
    \<lparr>files = [(''data/financial_document_job-7.pdf'', ''content'')],
     users = [\<lparr>id_u = 1, email = ''ann@example.org'', created_at_u = 5000\<rparr>],
     analysis_results =
       [\<lparr>id' = ''job-7'', user_id = Some 1, filename = ''Report.PDF'', status = ''pending'',
         result_json = JNull, error_message = None, created_at = 5000, completed_at = None\<rparr>],
     queue = [\<lparr>q_task_id = ''job-7'', q_file_path = ''data/financial_document_job-7.pdf'',
               q_query = ''Analyze this financial document comprehensively'',
               q_user_id = Some 1, q_expires = 3600\<rparr>],
     events = [Db_commit ''job-7'' ''pending'']\<rparr>)"
  by code_simp

text \<open>
  C9: a submission with no filename, or with a filename whose lower-case form does not
  end in \<open>.pdf\<close>, is rejected with the status 400 and the detail
  \<open>Only PDF files are supported\<close>, and the world is left exactly as it was: no file is
  stored, no user and no job record is created, nothing is queued and nothing is logged
  as an error.
\<close>

theorem submit_rejects_non_pdf:
  assumes "\<forall>name. fname = Some name \<longrightarrow> \<not> (\<exists>stem. lower name = stem @ ''.pdf'')"
  shows "submit_analysis S now file_id fname content query em w =
           (Inl (HTTPException 400 (Detail ''Only PDF files are supported'')), w)"
proof -
  have "\<not> truthy fname \<or> \<not> endswith (lower (str_opt fname)) ''.pdf''"
    using assms by (cases fname) (auto simp: endswith_iff)
  then show ?thesis
    by (simp add: submit_analysis_def submit_body_def)
qed

theorem submit_rejects_non_pdf_witness:
  "\<not> endswith (lower ''Report.DOCX'') ''.pdf'' \<and>
   submit_analysis no_submit_errors 5000 ''job-7'' (Some ''Report.DOCX'') ''content''
       ''Analyze this'' (Some ''ann@example.org'') (world_of [job ''pending'']) =
     (Inl (HTTPException 400 (Detail ''Only PDF files are supported'')), world_of [job ''pending''])"
proof -
  have h: "\<forall>name. Some ''Report.DOCX'' = Some name \<longrightarrow> \<not> (\<exists>stem. lower name = stem @ ''.pdf'')"
    using docx by (simp add: endswith_iff)
  show ?thesis
    using submit_rejects_non_pdf[OF h, where S = no_submit_errors and now = 5000
        and file_id = "''job-7''" and content = "''content''" and query = "''Analyze this''"
        and em = "Some ''ann@example.org''" and w = "world_of [job ''pending'']"] docx
    by simp
qed

end
